theory Spec2Isabelle
  imports Complex_Main
begin

section \<open>The PDF writer of api-doc-baker\<close>

text \<open>
  A shallow embedding of the class \<open>PdfWriter\<close> (the compiled \<open>pdf-writer.js\<close>, with
  the older \<open>src/pdf-writer.ts\<close> beside it). The writer draws through pdfkit's
  \<open>PDFDocument\<close>, which is not part of the repository: the document is a record of what
  the writer can read back or has asked for (cursor, active font, pages with their
  margins, the bookmark items, the drawing calls in order), and what pdfkit alone decides
  (how far a text moves the cursor, how many pages it breaks onto, string measurements)
  is a parameter \<open>L\<close> of every operation.
\<close>

subsection \<open>JavaScript values\<close>

text \<open>
  A value that may be \<open>undefined\<close> is an \<open>option\<close>: \<open>None\<close> is \<open>undefined\<close>. Numbers are
  exact rationals with \<open>NaN\<close> (the rounding of doubles and the infinities are not
  modelled); arithmetic on \<open>undefined\<close> gives \<open>NaN\<close>, as \<open>ToNumber\<close> does.
\<close>

datatype jsnum = Num rat | NaN

definition to_num :: "jsnum option \<Rightarrow> jsnum" where
  "to_num v = (case v of None \<Rightarrow> NaN | Some n \<Rightarrow> n)"

fun js_add :: "jsnum \<Rightarrow> jsnum \<Rightarrow> jsnum" where
  "js_add (Num a) (Num b) = Num (a + b)"
| "js_add _ _ = NaN"

fun js_sub :: "jsnum \<Rightarrow> jsnum \<Rightarrow> jsnum" where
  "js_sub (Num a) (Num b) = Num (a - b)"
| "js_sub _ _ = NaN"

fun js_mul :: "jsnum \<Rightarrow> jsnum \<Rightarrow> jsnum" where
  "js_mul (Num a) (Num b) = Num (a * b)"
| "js_mul _ _ = NaN"

text \<open>Division is only ever by the literals 2 and 4.\<close>

fun js_div :: "jsnum \<Rightarrow> jsnum \<Rightarrow> jsnum" where
  "js_div (Num a) (Num b) = (if b = 0 then NaN else Num (a / b))"
| "js_div _ _ = NaN"

text \<open>The operator \<open>a ?? b\<close>.\<close>

definition nullish :: "'a option \<Rightarrow> 'a option \<Rightarrow> 'a option" where
  "nullish a b = (case a of None \<Rightarrow> b | Some v \<Rightarrow> Some v)"

text \<open>Truthiness of a string that may be undefined: defined and not empty.\<close>

definition truthy :: "string option \<Rightarrow> bool" where
  "truthy s = (case s of None \<Rightarrow> False | Some t \<Rightarrow> t \<noteq> [])"

text \<open>Decimal rendering of a natural number, as a template literal prints it.\<close>

fun showNat :: "nat \<Rightarrow> string" where
  "showNat n =
     (if n < 10 then [''0123456789'' ! n]
      else showNat (n div 10) @ [''0123456789'' ! (n mod 10)])"

text \<open>\<open>toLowerCase\<close> on the ASCII letters.\<close>

definition to_lower_char :: "char \<Rightarrow> char" where
  "to_lower_char c =
     (case map_of (zip ''ABCDEFGHIJKLMNOPQRSTUVWXYZ'' ''abcdefghijklmnopqrstuvwxyz'') c of
        None \<Rightarrow> c
      | Some l \<Rightarrow> l)"

definition toLowerCase :: "string \<Rightarrow> string" where
  "toLowerCase s = map to_lower_char s"

subsection \<open>Styles\<close>

datatype EFont = NORM | BOLD | ITALIC | BOLD_ITALIC | MONOSPACED

fun EFont_index :: "EFont \<Rightarrow> nat" where
  "EFont_index NORM = 0"
| "EFont_index BOLD = 1"
| "EFont_index ITALIC = 2"
| "EFont_index BOLD_ITALIC = 3"
| "EFont_index MONOSPACED = 4"

definition fonts :: "string list" where
  "fonts = [''Helvetica'', ''Helvetica-Bold'', ''Helvetica-Oblique'',
            ''Helvetica-BoldOblique'', ''Courier-Bold'']"

definition headerGap :: jsnum where
  "headerGap = Num (7 / 10)"

definition paraGap :: jsnum where
  "paraGap = Num (1 / 2)"

text \<open>
  The configurable style \<open>this.style\<close>. The object supplied from outside comes from
  \<open>JSON.parse\<close>, so any of its options can be missing; its three groups are taken to be
  there (without \<open>format\<close> the constructor itself fails on a property of \<open>undefined\<close>).
\<close>

record color_config =
  main :: "string option"
  secondary :: "string option"
  highlight :: "string option"
  headers :: "string option"
  subHeaders :: "string option"
  getMethod :: "string option"
  putMethod :: "string option"
  postMethod :: "string option"
  patchMethod :: "string option"
  deleteMethod :: "string option"
  otherMethods :: "string option"

record font_config =
  baseSize :: "jsnum option"

record format_config =
  indentStep :: "jsnum option"
  horizontalMargin :: "jsnum option"
  verticalMargin :: "jsnum option"

record style_config =
  color :: color_config
  font_group :: font_config
  format :: format_config

definition default_style :: style_config where
  "default_style =
     \<lparr> color =
         \<lparr> main = Some ''#333333'', secondary = Some ''#6B7B8E'',
           highlight = Some ''#8A3324'', headers = Some ''#2A4D69'',
           subHeaders = Some ''#4B86B4'', getMethod = Some ''#4A90E2'',
           putMethod = Some ''#6B8E23'', postMethod = Some ''#D87F0A'',
           patchMethod = Some ''#C2A000'', deleteMethod = Some ''#D0021B'',
           otherMethods = Some ''#2A4D69'' \<rparr>,
       font_group = \<lparr> baseSize = Some (Num 10) \<rparr>,
       format =
         \<lparr> indentStep = Some (Num 12), horizontalMargin = Some (Num 70),
           verticalMargin = Some (Num 50) \<rparr> \<rparr>"

text \<open>
  A text style as the stack holds it: every field read gives a value or \<open>undefined\<close>.
  A patch (the argument of \<open>pushStyle\<close>, \<open>withStyle\<close> and \<open>text\<close>) may also lack a key:
  the outer \<open>None\<close> is a missing key, \<open>Some None\<close> a key holding \<open>undefined\<close>, which
  \<open>Object.assign\<close> copies like any other value.
\<close>

record text_style =
  font :: "EFont option"
  fontSize :: "jsnum option"
  fillColor :: "string option"
  leftMargin :: "jsnum option"
  lineGap :: "jsnum option"

record style_patch =
  p_font :: "EFont option option"
  p_fontSize :: "jsnum option option"
  p_fillColor :: "string option option"
  p_leftMargin :: "jsnum option option"
  p_lineGap :: "jsnum option option"

definition no_patch :: style_patch where
  "no_patch = \<lparr> p_font = None, p_fontSize = None, p_fillColor = None,
                 p_leftMargin = None, p_lineGap = None \<rparr>"

text \<open>\<open>Object.keys(style).length\<close>.\<close>

definition patch_keys :: "style_patch \<Rightarrow> nat" where
  "patch_keys p =
     (if p_font p = None then 0 else 1) + (if p_fontSize p = None then 0 else 1) +
     (if p_fillColor p = None then 0 else 1) + (if p_leftMargin p = None then 0 else 1) +
     (if p_lineGap p = None then 0 else 1)"

text \<open>One key of \<open>Object.assign({}, cur, patch)\<close>.\<close>

definition assign_key :: "'a option \<Rightarrow> 'a option option \<Rightarrow> 'a option" where
  "assign_key cur p = (case p of None \<Rightarrow> cur | Some v \<Rightarrow> v)"

subsection \<open>The document of the rendering primitive\<close>

record margins =
  m_left :: "jsnum option"
  m_right :: "jsnum option"
  m_top :: "jsnum option"
  m_bottom :: "jsnum option"

record page =
  page_margins :: margins
  page_height :: jsnum

record text_options =
  continued :: "bool option"
  destination :: "string option"
  goTo :: "string option"
  underline :: "bool option"
  opt_x :: "jsnum option"
  opt_y :: "jsnum option"
  align :: "string option"
  indent :: "jsnum option"

definition no_options :: text_options where
  "no_options = \<lparr> continued = None, destination = None, goTo = None, underline = None,
                   opt_x = None, opt_y = None, align = None, indent = None \<rparr>"

text \<open>
  One call of \<open>doc.text\<close>: the string, the position when the call gives one, the options
  with the style's line gap, and where the document stood: the page it was switched to,
  that page's margins, and the font, size and fill colour last set.
\<close>

record text_run =
  run_str :: string
  run_pos :: "(jsnum option \<times> jsnum option) option"
  run_options :: text_options
  run_lineGap :: "jsnum option"
  run_page :: nat
  run_margins :: "margins option"
  run_font :: string
  run_fontSize :: "jsnum option"
  run_fillColor :: "string option"

text \<open>The drawing calls the writer makes, in the order it makes them.\<close>

datatype draw_op =
  TextOp text_run
| LineJoinOp string
| LineWidthOp jsnum
| RectOp "jsnum option" jsnum jsnum jsnum
| FillAndStrokeOp "string option" "string option"

text \<open>
  The bookmark tree is an arena: an item is its parent (\<open>None\<close> under the root
  \<open>doc.outline\<close>) and its title, and is referred to by its index.
\<close>

record pdf_doc =
  doc_x :: "jsnum option"
  doc_y :: "jsnum option"
  doc_font :: string
  doc_fontSize :: "jsnum option"
  doc_fillColor :: "string option"
  doc_margins :: margins
  pages :: "page list"
  page_ix :: nat
  outline_items :: "(nat option \<times> string) list"
  ops :: "draw_op list"
  piped :: "string option"
  ended :: bool

text \<open>What pdfkit decides: the paper height, the effect of a text call on the cursor and
  the number of pages it breaks onto, string measurements, and where \<open>moveDown\<close> and
  \<open>moveUp\<close> leave the cursor.\<close>

record layout =
  paper_height :: jsnum
  flow :: "pdf_doc \<Rightarrow> text_run \<Rightarrow> nat \<times> jsnum option \<times> jsnum option"
  widthOfString :: "pdf_doc \<Rightarrow> string \<Rightarrow> jsnum"
  heightOfString :: "pdf_doc \<Rightarrow> string \<Rightarrow> jsnum"
  movedDown :: "pdf_doc \<Rightarrow> jsnum \<Rightarrow> jsnum option"
  movedUp :: "pdf_doc \<Rightarrow> jsnum option"

subsection \<open>The writer\<close>

text \<open>
  What can be thrown: the nesting error of \<open>addOutline\<close> with the two numbers of its
  message, a \<open>TypeError\<close> on reading \<open>doc.page\<close> when there is none, pdfkit's range error
  of \<open>switchToPage\<close>, and whatever a block handed to \<open>withStyle\<close> throws.
\<close>

datatype error =
  HeaderNestingError int int
| TypeError
| PageRangeError nat
| BlockError string

record writer =
  style :: style_config
  currentSectionName :: string
  pageNumber :: nat
  pageHeaderNodes :: "string list"
  docOutlines :: "nat list"
  styleStack :: "text_style list"
  baseStyle :: text_style
  doc :: pdf_doc

text \<open>
  A method is a function from the writer to an outcome and the writer it leaves:
  \<open>None\<close> when it returns, \<open>Some e\<close> when it throws \<open>e\<close>. A thrown exception leaves
  every mutation made before it in place.
\<close>

type_synonym action = "writer \<Rightarrow> error option \<times> writer"

definition ret :: action where
  "ret w = (None, w)"

definition lift :: "(writer \<Rightarrow> writer) \<Rightarrow> action" where
  "lift f w = (None, f w)"

definition seq :: "action \<Rightarrow> action \<Rightarrow> action" where
  "seq f g w = (case f w of (None, w') \<Rightarrow> g w' | (Some e, w') \<Rightarrow> (Some e, w'))"

definition when_do :: "bool \<Rightarrow> action \<Rightarrow> action" where
  "when_do b f = (if b then f else ret)"

text \<open>A statement whose arguments are read from the writer as it stands.\<close>

definition reading :: "(writer \<Rightarrow> action) \<Rightarrow> action" where
  "reading f w = f w w"

text \<open>\<open>xs.forEach(f)\<close>: an exception ends the loop.\<close>

fun forEach :: "('a \<Rightarrow> action) \<Rightarrow> 'a list \<Rightarrow> action" where
  "forEach f [] = ret"
| "forEach f (a # as) = seq (f a) (forEach f as)"

text \<open>Sequential composition of a list of actions: the statements of a block.\<close>

fun block :: "action list \<Rightarrow> action" where
  "block [] = ret"
| "block (f # fs) = seq f (block fs)"

subsection \<open>Calls into the rendering primitive\<close>

text \<open>
  \<open>new PDFDocument({bufferPages: true, autoFirstPage: false, margins})\<close>: every page
  stays in the buffer and there is no page yet. pdfkit starts with the cursor at the
  origin and with Helvetica 12 in black.
\<close>

definition PDFDocument_new :: "margins \<Rightarrow> pdf_doc" where
  "PDFDocument_new ms =
     \<lparr> doc_x = Some (Num 0), doc_y = Some (Num 0), doc_font = ''Helvetica'',
       doc_fontSize = Some (Num 12), doc_fillColor = Some ''black'', doc_margins = ms,
       pages = [], page_ix = 0, outline_items = [], ops = [], piped = None,
       ended = False \<rparr>"

text \<open>The page \<open>doc.page\<close>, when there is one.\<close>

definition cur_page :: "pdf_doc \<Rightarrow> page option" where
  "cur_page d = (if page_ix d < length (pages d) then Some (pages d ! page_ix d) else None)"

text \<open>The handler the constructor registers for \<open>pageAdded\<close>.\<close>

definition pageAdded :: "writer \<Rightarrow> writer" where
  "pageAdded w =
     w\<lparr> pageNumber := pageNumber w + 1,
        pageHeaderNodes := pageHeaderNodes w @ [currentSectionName w] \<rparr>"

text \<open>
  \<open>doc.addPage()\<close>: a page with the document's margins joins the buffer and becomes
  the current one, the cursor goes to its top left corner, and the event fires.
\<close>

definition doc_addPage :: "layout \<Rightarrow> writer \<Rightarrow> writer" where
  "doc_addPage L w =
     (let d = doc w;
          d' = d\<lparr> pages := pages d @
                    [\<lparr> page_margins = doc_margins d, page_height = paper_height L \<rparr>],
                  page_ix := length (pages d),
                  doc_x := m_left (doc_margins d),
                  doc_y := m_top (doc_margins d) \<rparr>
      in pageAdded (w\<lparr> doc := d' \<rparr>))"

text \<open>
  \<open>doc.text(str, x, y, options)\<close> and \<open>doc.text(str, options)\<close>: the call is recorded,
  the pages the text breaks onto are added one by one (each firing the event), and the
  cursor ends where pdfkit leaves it.
\<close>

definition text_call ::
  "pdf_doc \<Rightarrow> string \<Rightarrow> (jsnum option \<times> jsnum option) option \<Rightarrow> text_options \<Rightarrow>
   jsnum option \<Rightarrow> text_run" where
  "text_call d str pos options lg =
     \<lparr> run_str = str, run_pos = pos, run_options = options, run_lineGap = lg,
       run_page = page_ix d, run_margins = map_option page_margins (cur_page d),
       run_font = doc_font d, run_fontSize = doc_fontSize d,
       run_fillColor = doc_fillColor d \<rparr>"

definition doc_text ::
  "layout \<Rightarrow> string \<Rightarrow> (jsnum option \<times> jsnum option) option \<Rightarrow> text_options \<Rightarrow>
   jsnum option \<Rightarrow> writer \<Rightarrow> writer" where
  "doc_text L str pos options lg w =
     (let d = doc w;
          r = text_call d str pos options lg;
          w1 = w\<lparr> doc := d\<lparr> ops := ops d @ [TextOp r] \<rparr> \<rparr>;
          w2 = (doc_addPage L ^^ fst (flow L d r)) w1
      in w2\<lparr> doc := (doc w2)\<lparr> doc_x := fst (snd (flow L d r)),
                                doc_y := snd (snd (flow L d r)) \<rparr> \<rparr>)"

definition doc_moveDown :: "layout \<Rightarrow> jsnum \<Rightarrow> writer \<Rightarrow> writer" where
  "doc_moveDown L n w = w\<lparr> doc := (doc w)\<lparr> doc_y := movedDown L (doc w) n \<rparr> \<rparr>"

definition doc_moveUp :: "layout \<Rightarrow> writer \<Rightarrow> writer" where
  "doc_moveUp L w = w\<lparr> doc := (doc w)\<lparr> doc_y := movedUp L (doc w) \<rparr> \<rparr>"

definition doc_draw :: "draw_op list \<Rightarrow> writer \<Rightarrow> writer" where
  "doc_draw os w = w\<lparr> doc := (doc w)\<lparr> ops := ops (doc w) @ os \<rparr> \<rparr>"

definition doc_set_x :: "jsnum option \<Rightarrow> writer \<Rightarrow> writer" where
  "doc_set_x v w = w\<lparr> doc := (doc w)\<lparr> doc_x := v \<rparr> \<rparr>"

definition doc_set_y :: "jsnum option \<Rightarrow> writer \<Rightarrow> writer" where
  "doc_set_y v w = w\<lparr> doc := (doc w)\<lparr> doc_y := v \<rparr> \<rparr>"

text \<open>\<open>doc.switchToPage(i)\<close> throws when the page is not in the buffer.\<close>

definition doc_switchToPage :: "nat \<Rightarrow> action" where
  "doc_switchToPage i w =
     (if i < length (pages (doc w)) then (None, w\<lparr> doc := (doc w)\<lparr> page_ix := i \<rparr> \<rparr>)
      else (Some (PageRangeError i), w))"

text \<open>A statement that reads \<open>doc.page\<close>: a \<open>TypeError\<close> when there is no page.\<close>

definition with_page :: "(page \<Rightarrow> action) \<Rightarrow> action" where
  "with_page f w = (case cur_page (doc w) of None \<Rightarrow> (Some TypeError, w) | Some p \<Rightarrow> f p w)"

text \<open>\<open>doc.page.margins.top = t; doc.page.margins.bottom = b\<close>.\<close>

definition set_page_margins :: "jsnum option \<Rightarrow> jsnum option \<Rightarrow> action" where
  "set_page_margins t b =
     with_page (\<lambda>p. lift (\<lambda>w. w\<lparr> doc := (doc w)\<lparr> pages := (pages (doc w))
        [page_ix (doc w) := p\<lparr> page_margins := (page_margins p)\<lparr> m_top := t, m_bottom := b \<rparr> \<rparr>]
        \<rparr> \<rparr>))"

definition doc_end :: "writer \<Rightarrow> writer" where
  "doc_end w = w\<lparr> doc := (doc w)\<lparr> ended := True \<rparr> \<rparr>"

text \<open>\<open>parent.addItem(str)\<close>, with \<open>None\<close> for the root \<open>doc.outline\<close>: the new item.\<close>

definition addItem :: "nat option \<Rightarrow> string \<Rightarrow> writer \<Rightarrow> nat \<times> writer" where
  "addItem parent str w =
     (length (outline_items (doc w)),
      w\<lparr> doc := (doc w)\<lparr> outline_items := outline_items (doc w) @ [(parent, str)] \<rparr> \<rparr>)"

subsection \<open>The style stack\<close>

definition currentStyle :: "writer \<Rightarrow> text_style" where
  "currentStyle w =
     (if length (styleStack w) > 0 then styleStack w ! (length (styleStack w) - 1)
      else baseStyle w)"

definition setStyle :: "text_style \<Rightarrow> writer \<Rightarrow> writer" where
  "setStyle st w =
     w\<lparr> doc := (doc w)
       \<lparr> doc_font := fonts ! (case font st of None \<Rightarrow> 0 | Some f \<Rightarrow> EFont_index f),
         doc_fontSize := fontSize st,
         doc_fillColor := fillColor st \<rparr> \<rparr>"

definition resetStyle :: "writer \<Rightarrow> writer" where
  "resetStyle w = (let w1 = w\<lparr> styleStack := [] \<rparr> in setStyle (baseStyle w1) w1)"

text \<open>Reading a key of a patch.\<close>

definition patch_get :: "'a option option \<Rightarrow> 'a option" where
  "patch_get p = (case p of None \<Rightarrow> None | Some v \<Rightarrow> v)"

definition pushStyle :: "style_patch \<Rightarrow> writer \<Rightarrow> text_style \<times> writer" where
  "pushStyle p w =
     (let cur = currentStyle w;
          mergedStyle =
            \<lparr> font = assign_key (font cur) (p_font p),
              fontSize = assign_key (fontSize cur) (p_fontSize p),
              fillColor = assign_key (fillColor cur) (p_fillColor p),
              leftMargin = Some (js_add (to_num (nullish (leftMargin cur) (Some (Num 0))))
                                        (to_num (nullish (patch_get (p_leftMargin p)) (Some (Num 0))))),
              lineGap = assign_key (lineGap cur) (p_lineGap p) \<rparr>;
          w1 = setStyle mergedStyle w;
          w2 = doc_set_x (leftMargin mergedStyle) w1
      in (mergedStyle, w2\<lparr> styleStack := styleStack w2 @ [mergedStyle] \<rparr>))"

definition popStyle :: "writer \<Rightarrow> text_style \<times> writer" where
  "popStyle w =
     (let w1 = w\<lparr> styleStack := butlast (styleStack w) \<rparr>;
          prevStyle = currentStyle w1;
          w2 = setStyle prevStyle w1
      in (prevStyle, doc_set_x (leftMargin prevStyle) w2))"

definition withStyle :: "style_patch \<Rightarrow> (text_style \<Rightarrow> action) \<Rightarrow> action" where
  "withStyle p fn w =
     (case pushStyle p w of
        (newStyle, w1) \<Rightarrow> seq (fn newStyle) (lift (\<lambda>w'. snd (popStyle w'))) w1)"

definition indentStart :: action where
  "indentStart =
     reading (\<lambda>w. lift (\<lambda>w'. snd (pushStyle
        (no_patch\<lparr> p_leftMargin := Some (indentStep (format (style w))) \<rparr>) w')))"

definition indentEnd :: action where
  "indentEnd = lift (\<lambda>w. snd (popStyle w))"

subsection \<open>Text\<close>

definition lineBreak :: "layout \<Rightarrow> jsnum option \<Rightarrow> action" where
  "lineBreak L n = lift (doc_moveDown L (case n of None \<Rightarrow> Num 1 | Some v \<Rightarrow> v))"

definition textImpl :: "layout \<Rightarrow> string \<Rightarrow> text_options \<Rightarrow> writer \<Rightarrow> writer" where
  "textImpl L str options w =
     (let st = currentStyle w;
          absolutePos = (opt_x options \<noteq> None \<or> opt_y options \<noteq> None)
      in if absolutePos
         then doc_text L str
                (Some (nullish (opt_x options) (doc_x (doc w)),
                       nullish (opt_y options) (doc_y (doc w))))
                options (lineGap st) w
         else doc_text L str None options (lineGap st) w)"

definition text' :: "layout \<Rightarrow> string \<Rightarrow> style_patch option \<Rightarrow> text_options \<Rightarrow> action" where
  "text' L str sty options =
     (case sty of
        None \<Rightarrow> lift (textImpl L str options)
      | Some p \<Rightarrow>
          if patch_keys p > 0 then withStyle p (\<lambda>_. lift (textImpl L str options))
          else lift (textImpl L str options))"

subsection \<open>The outline\<close>

definition addOutline :: "int \<Rightarrow> string \<Rightarrow> action" where
  "addOutline level str w =
     (let outlinesLen = int (length (docOutlines w));
          thrown = (Some (HeaderNestingError level (outlinesLen - 1)));
          created =
            (if level = 0 then Some (addItem None str w)
             else if level > 0 \<and> level \<le> outlinesLen
               then Some (addItem (Some (docOutlines w ! nat (level - 1))) str w)
             else None)
      in case created of
           None \<Rightarrow> (thrown, w)
         | Some (newOutline, w1) \<Rightarrow>
             if level = outlinesLen
               then (None, w1\<lparr> docOutlines := docOutlines w1 @ [newOutline] \<rparr>)
             else if level < outlinesLen
               then (None, w1\<lparr> docOutlines :=
                       take (nat level + 1) ((docOutlines w1)[nat level := newOutline]) \<rparr>)
             else if level > outlinesLen then (thrown, w1)
             else (None, w1))"

definition header :: "layout \<Rightarrow> int \<Rightarrow> string \<Rightarrow> string option \<Rightarrow> action" where
  "header L level str anchor =
     block
       [reading (\<lambda>w. withStyle
          \<lparr> p_font = Some (Some BOLD),
            p_fontSize = Some (Some (js_sub (js_add (to_num (baseSize (font_group (style w)))) (Num 4))
                                            (js_mul (Num (of_int level)) (Num 2)))),
            p_fillColor = Some (headers (color (style w))),
            p_leftMargin = None, p_lineGap = None \<rparr>
          (\<lambda>_. block
             [text' L str (Some no_patch) (no_options\<lparr> destination := anchor \<rparr>),
              lineBreak L (Some headerGap)])),
        addOutline level str]"

definition colorByMethod :: "style_config \<Rightarrow> (string \<times> string option) list" where
  "colorByMethod s =
     [(''get'', getMethod (color s)), (''put'', putMethod (color s)),
      (''post'', postMethod (color s)), (''patch'', patchMethod (color s)),
      (''delete'', deleteMethod (color s))]"

definition apiHeader :: "layout \<Rightarrow> string \<Rightarrow> string \<Rightarrow> int \<Rightarrow> action" where
  "apiHeader L meth endpoint headerLevel =
     reading (\<lambda>w.
       (let fontSize' = js_add (to_num (baseSize (font_group (style w)))) (Num 2);
            byMethod = colorByMethod (style w)
        in block
             [withStyle
                (no_patch\<lparr> p_font := Some (Some BOLD), p_fontSize := Some (Some fontSize') \<rparr>)
                (\<lambda>_. reading (\<lambda>w1.
                   (let width = widthOfString L (doc w1) meth;
                        height = heightOfString L (doc w1) meth;
                        colr = nullish (patch_get (map_of byMethod (toLowerCase meth)))
                                       (otherMethods (color (style w1)))
                    in block
                         [text' L meth (Some no_patch) (no_options\<lparr> continued := Some True \<rparr>),
                          text' L '' '' None no_options,
                          lift (doc_moveUp L),
                          reading (\<lambda>w2. lift (doc_draw
                             [LineJoinOp ''round'', LineWidthOp (Num 4),
                              RectOp (doc_x (doc w2))
                                     (js_sub (to_num (doc_y (doc w2))) (js_div fontSize' (Num 4)))
                                     width height,
                              FillAndStrokeOp colr colr])),
                          text' L meth (Some (no_patch\<lparr> p_fillColor := Some (Some ''white'') \<rparr>))
                            (no_options\<lparr> continued := Some True \<rparr>),
                          reading (\<lambda>w2. text' L (''  '' @ endpoint)
                             (Some (no_patch\<lparr> p_fillColor := Some (headers (color (style w2))) \<rparr>))
                             no_options),
                          lineBreak L (Some headerGap)]))),
              addOutline headerLevel (meth @ '' '' @ endpoint)]))"

subsection \<open>Pages and sections\<close>

definition addTitlePage :: "layout \<Rightarrow> string \<Rightarrow> string option \<Rightarrow> string option \<Rightarrow> action" where
  "addTitlePage L title subtitle date =
     block
       [lift (doc_addPage L),
        with_page (\<lambda>p. lift (doc_set_y (Some (js_mul (page_height p) (Num (3 / 10)))))),
        text' L title
          (Some (no_patch\<lparr> p_font := Some (Some BOLD), p_fontSize := Some (Some (Num 20)) \<rparr>))
          (no_options\<lparr> align := Some ''center'' \<rparr>),
        lineBreak L (Some (Num 1)),
        (case subtitle of
           None \<Rightarrow> ret
         | Some sub \<Rightarrow>
             when_do (sub \<noteq> [])
               (block
                  [text' L sub
                     (Some (no_patch\<lparr> p_font := Some (Some NORM), p_fontSize := Some (Some (Num 14)) \<rparr>))
                     (no_options\<lparr> align := Some ''center'' \<rparr>),
                   lineBreak L (Some (Num (1 / 2)))])),
        (case date of
           None \<Rightarrow> ret
         | Some dt \<Rightarrow>
             when_do (dt \<noteq> [])
               (reading (\<lambda>w. text' L dt
                  (Some (no_patch\<lparr> p_font := Some (Some NORM), p_fontSize := Some (Some (Num 12)),
                                    p_fillColor := Some (secondary (color (style w))) \<rparr>))
                  (no_options\<lparr> align := Some ''center'' \<rparr>))))]"

definition newSection :: "layout \<Rightarrow> string \<Rightarrow> action" where
  "newSection L name =
     block
       [lift (\<lambda>w. w\<lparr> currentSectionName := name \<rparr>),
        lift resetStyle,
        lift (doc_addPage L)]"

subsection \<open>Blocks of the document\<close>

definition subHeader :: "layout \<Rightarrow> string \<Rightarrow> action" where
  "subHeader L str =
     reading (\<lambda>w. withStyle
       \<lparr> p_font = Some (Some BOLD),
         p_fontSize = Some (baseSize (font_group (style w))),
         p_fillColor = Some (subHeaders (color (style w))),
         p_leftMargin = None, p_lineGap = None \<rparr>
       (\<lambda>_. block [text' L str None no_options, lineBreak L (Some headerGap)]))"

definition para :: "layout \<Rightarrow> string \<Rightarrow> action" where
  "para L str = block [text' L str None no_options, lineBreak L (Some paraGap)]"

definition description :: "layout \<Rightarrow> string \<Rightarrow> text_options \<Rightarrow> action" where
  "description L str options =
     block
       [reading (\<lambda>w. text' L str
          (Some (no_patch\<lparr> p_fillColor := Some (secondary (color (style w))) \<rparr>)) options),
        lineBreak L (Some (Num (1 / 2)))]"

record field_type =
  ft_text :: "string option"
  ft_anchor :: "string option"

record data_field =
  f_name :: string
  f_required :: "bool option"
  f_type :: "field_type option"
  f_description :: "string option"

text \<open>\<open>field.type?.text\<close> and \<open>field.type?.anchor\<close>.\<close>

definition type_text :: "data_field \<Rightarrow> string option" where
  "type_text field = (case f_type field of None \<Rightarrow> None | Some t \<Rightarrow> ft_text t)"

definition type_anchor :: "data_field \<Rightarrow> string option" where
  "type_anchor field = (case f_type field of None \<Rightarrow> None | Some t \<Rightarrow> ft_anchor t)"

definition fieldName :: "data_field \<Rightarrow> string" where
  "fieldName field =
     f_name field @ (if (case f_required field of None \<Rightarrow> True | Some r \<Rightarrow> r) then [] else ''?'')"

definition fieldType :: "data_field \<Rightarrow> string option" where
  "fieldType field =
     (case type_text field of
        None \<Rightarrow> None
      | Some t \<Rightarrow> if t \<noteq> [] then Some (t @ '';'') else None)"

text \<open>The body of the loop of \<open>dataFields\<close>, for one field.\<close>

definition dataField :: "layout \<Rightarrow> jsnum option \<Rightarrow> data_field \<Rightarrow> action" where
  "dataField L origX field =
     block
       [text' L (fieldName field) (Some no_patch)
          (no_options\<lparr> continued := Some (fieldType field \<noteq> None) \<rparr>),
        (case fieldType field of
           None \<Rightarrow> ret
         | Some ft \<Rightarrow>
             block
               [text' L '': '' (Some no_patch) (no_options\<lparr> continued := Some True \<rparr>),
                reading (\<lambda>w. text' L ft
                   (Some (no_patch\<lparr> p_fillColor := Some (highlight (color (style w))) \<rparr>))
                   (no_options\<lparr> goTo := type_anchor field,
                                 underline := Some (truthy (type_anchor field)) \<rparr>))]),
        (case f_description field of
           None \<Rightarrow> ret
         | Some ds \<Rightarrow>
             when_do (ds \<noteq> [])
               (block
                  [lift (doc_moveUp L),
                   reading (\<lambda>w.
                     (let nameAndType =
                            fieldName field @
                            (case fieldType field of None \<Rightarrow> [] | Some ft \<Rightarrow> '': '' @ ft)
                      in text' L (''  // '' @ ds)
                           (Some (no_patch\<lparr> p_fillColor := Some (secondary (color (style w))) \<rparr>))
                           (no_options
                              \<lparr> opt_x := Some (js_add (to_num origX)
                                                       (to_num (indentStep (format (style w))))),
                                indent := Some (js_sub (widthOfString L (doc w) nameAndType)
                                                        (to_num (indentStep (format (style w))))) \<rparr>)))])),
        lift (doc_set_x origX)]"

definition dataFields :: "layout \<Rightarrow> data_field list \<Rightarrow> action" where
  "dataFields L fs =
     reading (\<lambda>w. (let origX = doc_x (doc w) in forEach (dataField L origX) fs))"

definition schemaType :: "layout \<Rightarrow> string \<Rightarrow> string option \<Rightarrow> action" where
  "schemaType L typeName contentType =
     block
       [(case contentType of
           None \<Rightarrow> ret
         | Some ct \<Rightarrow>
             when_do (ct \<noteq> [])
               (block
                  [text' L ''Content: '' (Some no_patch) (no_options\<lparr> continued := Some True \<rparr>),
                   reading (\<lambda>w. text' L ct
                      (Some (no_patch\<lparr> p_fillColor := Some (highlight (color (style w))) \<rparr>))
                      (no_options\<lparr> continued := Some True \<rparr>)),
                   text' L '' | '' (Some no_patch) (no_options\<lparr> continued := Some True \<rparr>)])),
        text' L ''Type: '' (Some no_patch) (no_options\<lparr> continued := Some True \<rparr>),
        reading (\<lambda>w. text' L typeName
           (Some (no_patch\<lparr> p_fillColor := Some (highlight (color (style w))) \<rparr>)) no_options),
        lineBreak L (Some paraGap)]"

definition objectSchema :: "layout \<Rightarrow> data_field list \<Rightarrow> action" where
  "objectSchema L fs =
     block
       [text' L ''{'' None no_options, indentStart, dataFields L fs, indentEnd,
        text' L ''}'' None no_options]"

definition example :: "layout \<Rightarrow> string \<Rightarrow> string \<Rightarrow> action" where
  "example L name body =
     block
       [text' L (''Example '' @ [CHR 0x22] @ name @ [CHR 0x22] @ '':'')
          (Some (no_patch\<lparr> p_font := Some (Some BOLD) \<rparr>)) no_options,
        lineBreak L (Some paraGap),
        reading (\<lambda>w. text' L body
           (Some (no_patch
              \<lparr> p_font := Some (Some MONOSPACED),
                p_fontSize := Some (Some (js_sub (to_num (baseSize (font_group (style w)))) (Num 2))),
                p_fillColor := Some (secondary (color (style w))) \<rparr>))
           no_options)]"

text \<open>The body of the loop of \<open>enumValues\<close>, for the value at \<open>index\<close> of \<open>len\<close> values.\<close>

definition enumValue ::
  "layout \<Rightarrow> nat \<Rightarrow> jsnum \<Rightarrow> jsnum \<Rightarrow> nat \<times> string \<Rightarrow> action" where
  "enumValue L len nextLineIndent indent' iv =
     (case iv of
        (index, val) \<Rightarrow>
          (let str = (if int index < int len - 1 then val @ '', '' else val);
               continued' = (if int index < int len - 1 then True else False)
           in if index = 0
              then text' L str (Some no_patch)
                     (no_options\<lparr> opt_x := Some nextLineIndent, indent := Some indent',
                                   continued := Some continued' \<rparr>)
              else text' L str (Some no_patch) (no_options\<lparr> continued := Some continued' \<rparr>)))"

definition enumValues :: "layout \<Rightarrow> string list \<Rightarrow> action" where
  "enumValues L vals =
     block
       [text' L ''Values: '' None no_options,
        lift (doc_moveUp L),
        reading (\<lambda>w.
          (let nextLineIndent = js_add (to_num (doc_x (doc w)))
                                       (to_num (indentStep (format (style w))));
               indent' = js_sub (widthOfString L (doc w) ''Values: '')
                                (to_num (indentStep (format (style w))))
           in withStyle (no_patch\<lparr> p_fillColor := Some (highlight (color (style w))) \<rparr>)
                (\<lambda>_. forEach (enumValue L (length vals) nextLineIndent indent')
                        (zip [0..<length vals] vals))))]"

subsection \<open>Finishing\<close>

definition nth_opt :: "'a list \<Rightarrow> nat \<Rightarrow> 'a option" where
  "nth_opt xs i = (if i < length xs then Some (xs ! i) else None)"

definition pageLabel :: "nat \<Rightarrow> nat \<Rightarrow> string" where
  "pageLabel i count = ''Page '' @ showNat i @ '' / '' @ showNat (count - 1)"

text \<open>
  What the block of \<open>finish\<close> draws on page \<open>i\<close>: the section recorded for the page,
  when there is one and it is not empty, and the page label.
\<close>

definition stampPage :: "layout \<Rightarrow> nat \<Rightarrow> nat \<Rightarrow> jsnum option \<Rightarrow> jsnum option \<Rightarrow> action" where
  "stampPage L count i origTop origBottom =
     block
       [reading (\<lambda>w. case nth_opt (pageHeaderNodes w) i of
                       None \<Rightarrow> ret
                     | Some node \<Rightarrow>
                         when_do (node \<noteq> [])
                           (text' L node (Some no_patch)
                              (no_options
                                 \<lparr> opt_y := Some (js_div (to_num origTop) (Num 2)),
                                   align := Some ''right'' \<rparr>))),
        with_page (\<lambda>q.
          text' L (pageLabel i count) (Some no_patch)
            (no_options
               \<lparr> opt_y := Some (js_sub (page_height q) (js_div (to_num origBottom) (Num 2))),
                 align := Some ''right'' \<rparr>))]"

text \<open>The body of the loop of \<open>finish\<close>, for page \<open>i\<close> of \<open>count\<close> buffered pages.\<close>

definition finishPage :: "layout \<Rightarrow> nat \<Rightarrow> nat \<Rightarrow> action" where
  "finishPage L count i =
     seq (doc_switchToPage i)
       (with_page (\<lambda>p.
          (let origTop = m_top (page_margins p);
               origBottom = m_bottom (page_margins p)
           in block
                [set_page_margins (Some (Num 0)) (Some (Num 0)),
                 when_do (i > 0)
                   (reading (\<lambda>w. withStyle
                      \<lparr> p_font = Some (Some NORM), p_fontSize = Some (Some (Num 9)),
                        p_fillColor = Some (secondary (color (style w))),
                        p_leftMargin = None, p_lineGap = None \<rparr>
                      (\<lambda>_. stampPage L count i origTop origBottom))),
                 set_page_margins origTop origBottom])))"

definition finish :: "layout \<Rightarrow> action" where
  "finish L =
     reading (\<lambda>w.
       (let count = length (pages (doc w))
        in block [forEach (finishPage L count) [0..<count], lift doc_end]))"

subsection \<open>Construction\<close>

definition PdfWriter_new :: "string option \<Rightarrow> style_config option \<Rightarrow> writer" where
  "PdfWriter_new outputFilePath external =
     (let style0 = default_style;
          base = \<lparr> font = Some NORM, fontSize = baseSize (font_group style0),
                   fillColor = main (color style0),
                   leftMargin = horizontalMargin (format style0),
                   lineGap = Some (Num 0) \<rparr>;
          style1 = (case external of None \<Rightarrow> style0 | Some st \<Rightarrow> st);
          d = PDFDocument_new
                \<lparr> m_left = horizontalMargin (format style1),
                  m_right = horizontalMargin (format style1),
                  m_top = verticalMargin (format style1),
                  m_bottom = verticalMargin (format style1) \<rparr>
      in \<lparr> style = style1, currentSectionName = [], pageNumber = 0, pageHeaderNodes = [],
           docOutlines = [], styleStack = [], baseStyle = base,
           doc = (if truthy outputFilePath then d\<lparr> piped := outputFilePath \<rparr> else d) \<rparr>)"

subsection \<open>Sequences of calls\<close>

datatype call =
  AddTitlePage string "string option" "string option"
| NewSection string
| IndentStart
| IndentEnd
| LineBreak "jsnum option"
| Text string "style_patch option" text_options
| Header int string "string option"
| ApiHeader string string int
| SubHeader string
| Para string
| Description string text_options
| DataFields "data_field list"
| SchemaType string "string option"
| ObjectSchema "data_field list"
| Example string string
| EnumValues "string list"
| Finish

fun exec :: "layout \<Rightarrow> call \<Rightarrow> action" where
  "exec L (AddTitlePage title subtitle date) = addTitlePage L title subtitle date"
| "exec L (NewSection name) = newSection L name"
| "exec L IndentStart = indentStart"
| "exec L IndentEnd = indentEnd"
| "exec L (LineBreak n) = lineBreak L n"
| "exec L (Text str sty options) = text' L str sty options"
| "exec L (Header level str anchor) = header L level str anchor"
| "exec L (ApiHeader meth endpoint level) = apiHeader L meth endpoint level"
| "exec L (SubHeader str) = subHeader L str"
| "exec L (Para str) = para L str"
| "exec L (Description str options) = description L str options"
| "exec L (DataFields fs) = dataFields L fs"
| "exec L (SchemaType typeName contentType) = schemaType L typeName contentType"
| "exec L (ObjectSchema fs) = objectSchema L fs"
| "exec L (Example name body) = example L name body"
| "exec L (EnumValues vals) = enumValues L vals"
| "exec L Finish = finish L"

text \<open>
  A caller makes its calls one after the other and may catch what one of them throws
  (the command line tool goes on with the next input file): \<open>run\<close> carries the writer
  through all of them, \<open>run_ok\<close> stops at the first exception.
\<close>

fun run :: "layout \<Rightarrow> call list \<Rightarrow> writer \<Rightarrow> writer" where
  "run L [] w = w"
| "run L (c # cs) w = run L cs (snd (exec L c w))"


subsection \<open>A rendering primitive to run the writer on\<close>


section \<open>Statements about the writer\<close>


subsection \<open>What a method returns and what it keeps\<close>

text \<open>
  \<open>returns f\<close>: the method never throws. \<open>preserves I f\<close>: the property \<open>I\<close> of the writer
  survives the method, whether it returns or throws. \<open>stable L I\<close>: \<open>I\<close> survives the
  steps every drawing method is made of. \<open>frame a b\<close>: the outline path and the bookmark
  items are \<open>a\<close> and \<open>b\<close>.
\<close>

definition returns :: "action \<Rightarrow> bool" where
  "returns f = (\<forall>w. fst (f w) = None)"

definition preserves :: "(writer \<Rightarrow> bool) \<Rightarrow> action \<Rightarrow> bool" where
  "preserves I f = (\<forall>w. I w \<longrightarrow> I (snd (f w)))"

definition stable :: "layout \<Rightarrow> (writer \<Rightarrow> bool) \<Rightarrow> bool" where
  "stable L I =
     (\<forall>w. I w \<longrightarrow>
        (\<forall>p. I (snd (pushStyle p w))) \<and> I (snd (popStyle w)) \<and>
        (\<forall>str options. I (textImpl L str options w)) \<and>
        (\<forall>n. I (doc_moveDown L n w)) \<and> I (doc_moveUp L w) \<and>
        (\<forall>os. I (doc_draw os w)) \<and> (\<forall>v. I (doc_set_x v w)))"


subsection \<open>Headings and the outline path\<close>








subsection \<open>Reading the drawing calls\<close>

text \<open>
  \<open>summary\<close>: of a text call, its string, its \<open>continued\<close> flag, and the \<open>x\<close> and \<open>indent\<close> it
  asks for. \<open>comma_runs\<close> is the comma-separated run as the specification words it: every
  value but the last with a comma and a space after it and marked as continued, the last
  as it is and not continued. \<open>expected_enum_runs\<close> places the first of them at a given
  \<open>x\<close> with a given indent; \<open>enum_item\<close> is what the loop of \<open>enumValues\<close> computes for the
  value at an index.
\<close>

fun summary :: "draw_op \<Rightarrow> (string \<times> bool option \<times> jsnum option \<times> jsnum option) option" where
  "summary (TextOp r) =
     Some (run_str r, continued (run_options r), opt_x (run_options r), indent (run_options r))"
| "summary _ = None"




subsection \<open>Style configurations\<close>

text \<open>
  \<open>overlay defaults supplied\<close> is the effective style as the specification words it: the
  defaults overlaid with the supplied options, each option taken from the supplied object
  when it is there and from the defaults otherwise. A configuration is \<open>complete\<close> when it
  has every option. Two configurations to run the constructor on: the defaults without
  the base font size, and the defaults with a larger font, indent and margins.
\<close>

definition overlay :: "style_config \<Rightarrow> style_config \<Rightarrow> style_config" where
  "overlay defaults supplied =
     \<lparr> color =
         \<lparr> main = nullish (main (color supplied)) (main (color defaults)),
           secondary = nullish (secondary (color supplied)) (secondary (color defaults)),
           highlight = nullish (highlight (color supplied)) (highlight (color defaults)),
           headers = nullish (headers (color supplied)) (headers (color defaults)),
           subHeaders = nullish (subHeaders (color supplied)) (subHeaders (color defaults)),
           getMethod = nullish (getMethod (color supplied)) (getMethod (color defaults)),
           putMethod = nullish (putMethod (color supplied)) (putMethod (color defaults)),
           postMethod = nullish (postMethod (color supplied)) (postMethod (color defaults)),
           patchMethod = nullish (patchMethod (color supplied)) (patchMethod (color defaults)),
           deleteMethod = nullish (deleteMethod (color supplied)) (deleteMethod (color defaults)),
           otherMethods = nullish (otherMethods (color supplied)) (otherMethods (color defaults)) \<rparr>,
       font_group =
         \<lparr> baseSize = nullish (baseSize (font_group supplied)) (baseSize (font_group defaults)) \<rparr>,
       format =
         \<lparr> indentStep = nullish (indentStep (format supplied)) (indentStep (format defaults)),
           horizontalMargin = nullish (horizontalMargin (format supplied))
                                      (horizontalMargin (format defaults)),
           verticalMargin = nullish (verticalMargin (format supplied))
                                    (verticalMargin (format defaults)) \<rparr> \<rparr>"

definition complete :: "style_config \<Rightarrow> bool" where
  "complete s =
     (main (color s) \<noteq> None \<and> secondary (color s) \<noteq> None \<and> highlight (color s) \<noteq> None \<and>
      headers (color s) \<noteq> None \<and> subHeaders (color s) \<noteq> None \<and> getMethod (color s) \<noteq> None \<and>
      putMethod (color s) \<noteq> None \<and> postMethod (color s) \<noteq> None \<and>
      patchMethod (color s) \<noteq> None \<and> deleteMethod (color s) \<noteq> None \<and>
      otherMethods (color s) \<noteq> None \<and> baseSize (font_group s) \<noteq> None \<and>
      indentStep (format s) \<noteq> None \<and> horizontalMargin (format s) \<noteq> None \<and>
      verticalMargin (format s) \<noteq> None)"

definition without_base_size :: style_config where
  "without_base_size = default_style\<lparr> font_group := \<lparr> baseSize = None \<rparr> \<rparr>"

definition larger_style :: style_config where
  "larger_style =
     default_style
       \<lparr> font_group := \<lparr> baseSize = Some (Num 14) \<rparr>,
         format := \<lparr> indentStep = Some (Num 20), horizontalMargin = Some (Num 100),
                     verticalMargin = Some (Num 60) \<rparr> \<rparr>"

subsection \<open>The page registry\<close>

text \<open>
  \<open>reg_inv\<close>: the list of page headers, the page counter and the pages of the document
  all count the same pages. \<open>titled_inv\<close>: moreover there is a first page and its header is
  the empty string. \<open>stable_doc L I\<close>: the property \<open>I\<close> survives every step the methods of
  the writer are made of: the drawing steps, a new page, a move of the cursor, a reset of
  the style, a new section name, the end of the document, a switch to another page, a
  change of the pages that keeps their number, and a change of the outline.
\<close>

definition reg_inv :: "writer \<Rightarrow> bool" where
  "reg_inv w =
     (length (pageHeaderNodes w) = pageNumber w \<and> pageNumber w = length (pages (doc w)))"

definition titled_inv :: "writer \<Rightarrow> bool" where
  "titled_inv w = (reg_inv w \<and> pageHeaderNodes w \<noteq> [] \<and> pageHeaderNodes w ! 0 = [])"

definition stable_doc :: "layout \<Rightarrow> (writer \<Rightarrow> bool) \<Rightarrow> bool" where
  "stable_doc L I =
     (stable L I \<and>
      (\<forall>w. I w \<longrightarrow>
         I (doc_addPage L w) \<and> (\<forall>v. I (doc_set_y v w)) \<and> I (resetStyle w) \<and>
         (\<forall>n. I (w\<lparr> currentSectionName := n \<rparr>)) \<and> I (doc_end w) \<and>
         (\<forall>i. I (w\<lparr> doc := (doc w)\<lparr> page_ix := i \<rparr> \<rparr>)) \<and>
         (\<forall>ps. length ps = length (pages (doc w)) \<longrightarrow> I (w\<lparr> doc := (doc w)\<lparr> pages := ps \<rparr> \<rparr>)) \<and>
         (\<forall>path its. I (w\<lparr> docOutlines := path, doc := (doc w)\<lparr> outline_items := its \<rparr> \<rparr>))))"

subsection \<open>The stamps of the last pass\<close>









section \<open>Properties of the writer\<close>

subsection \<open>Methods that return\<close>

lemma returnsD: "returns f \<Longrightarrow> fst (f w) = None"
  by (simp add: returns_def)

lemma seq_returns: "returns f \<Longrightarrow> seq f g w = g (snd (f w))"
  by (cases "f w") (auto simp: seq_def returns_def split: option.splits dest: spec[where x = w])

lemma returns_ret: "returns ret"
  by (simp add: returns_def ret_def)

lemma returns_lift: "returns (lift f)"
  by (simp add: returns_def lift_def)

lemma returns_seq: "returns f \<Longrightarrow> returns g \<Longrightarrow> returns (seq f g)"
  by (simp add: returns_def seq_returns)

lemma returns_when_do: "returns f \<Longrightarrow> returns (when_do b f)"
  by (simp add: when_do_def returns_ret)

lemma returns_reading: "(\<And>a. returns (f a)) \<Longrightarrow> returns (reading f)"
  by (simp add: returns_def reading_def)

lemma returns_Nil: "returns (block [])"
  by (simp add: returns_ret)

lemma returns_Cons: "returns f \<Longrightarrow> returns (block fs) \<Longrightarrow> returns (block (f # fs))"
  by (simp add: returns_seq)

lemma returns_forEach: "(\<And>a. returns (f a)) \<Longrightarrow> returns (forEach f as)"
  by (induction as) (simp_all add: returns_ret returns_seq)

lemma returns_case_option:
  "returns n \<Longrightarrow> (\<And>x. returns (f x)) \<Longrightarrow> returns (case v of None \<Rightarrow> n | Some x \<Rightarrow> f x)"
  by (cases v) simp_all

lemma returns_withStyle: "(\<And>st. returns (fn st)) \<Longrightarrow> returns (withStyle p fn)"
proof -
  assume r: "\<And>st. returns (fn st)"
  have "returns (seq (fn st) (lift (\<lambda>w'. snd (popStyle w'))))" for st
    by (intro returns_seq returns_lift r)
  then show ?thesis
    by (simp add: returns_def withStyle_def split: prod.splits)
qed

lemma returns_text': "returns (text' L str sty options)"
  by (auto simp: text'_def returns_lift returns_withStyle split: option.splits)

lemma returns_lineBreak: "returns (lineBreak L n)"
  by (simp add: lineBreak_def returns_lift)

lemma returns_indentStart: "returns indentStart"
  unfolding indentStart_def by (intro returns_reading returns_lift)

lemma returns_indentEnd: "returns indentEnd"
  unfolding indentEnd_def by (rule returns_lift)

lemma returns_enumValue: "returns (enumValue L len a b iv)"
  by (cases iv) (simp add: enumValue_def Let_def returns_text')

lemmas returns_intros =
  returns_seq returns_ret returns_lift returns_when_do returns_reading returns_Nil
  returns_Cons returns_forEach returns_case_option returns_withStyle returns_text'
  returns_lineBreak returns_indentStart returns_indentEnd returns_enumValue

lemma returns_subHeader: "returns (subHeader L str)"
  unfolding subHeader_def by (intro returns_intros)

lemma returns_para: "returns (para L str)"
  unfolding para_def by (intro returns_intros)

lemma returns_description: "returns (description L str options)"
  unfolding description_def by (intro returns_intros)

lemma returns_dataField: "returns (dataField L origX field)"
  unfolding dataField_def Let_def by (intro returns_intros)

lemma returns_dataFields: "returns (dataFields L fs)"
  unfolding dataFields_def Let_def by (intro returns_intros returns_dataField)

lemma returns_schemaType: "returns (schemaType L typeName contentType)"
  unfolding schemaType_def by (intro returns_intros)

lemma returns_objectSchema: "returns (objectSchema L fs)"
  unfolding objectSchema_def by (intro returns_intros returns_dataFields)

lemma returns_example: "returns (example L name body)"
  unfolding example_def by (intro returns_intros)

lemma returns_enumValues: "returns (enumValues L vals)"
  unfolding enumValues_def Let_def by (intro returns_intros)

lemma returns_newSection: "returns (newSection L name)"
  unfolding newSection_def by (intro returns_intros)

subsection \<open>Properties that a method preserves\<close>

lemma preservesD: "preserves I f \<Longrightarrow> I w \<Longrightarrow> I (snd (f w))"
  by (simp add: preserves_def)

lemma preserves_ret: "preserves I ret"
  by (simp add: preserves_def ret_def)

lemma preserves_lift: "(\<And>w. I w \<Longrightarrow> I (f w)) \<Longrightarrow> preserves I (lift f)"
  by (simp add: preserves_def lift_def)

lemma preserves_seq: "preserves I f \<Longrightarrow> preserves I g \<Longrightarrow> preserves I (seq f g)"
  by (auto simp: preserves_def seq_def split: prod.splits option.splits)

lemma preserves_when_do: "preserves I f \<Longrightarrow> preserves I (when_do b f)"
  by (simp add: when_do_def preserves_ret)

lemma preserves_reading: "(\<And>a. preserves I (f a)) \<Longrightarrow> preserves I (reading f)"
  by (simp add: preserves_def reading_def)

lemma preserves_Nil: "preserves I (block [])"
  by (simp add: preserves_ret)

lemma preserves_Cons: "preserves I f \<Longrightarrow> preserves I (block fs) \<Longrightarrow> preserves I (block (f # fs))"
  by (simp add: preserves_seq)

lemma preserves_forEach: "(\<And>a. preserves I (f a)) \<Longrightarrow> preserves I (forEach f as)"
  by (induction as) (simp_all add: preserves_ret preserves_seq)

lemma preserves_case_option:
  "preserves I n \<Longrightarrow> (\<And>x. preserves I (f x)) \<Longrightarrow> preserves I (case v of None \<Rightarrow> n | Some x \<Rightarrow> f x)"
  by (cases v) simp_all

lemma preserves_with_page: "(\<And>p. preserves I (f p)) \<Longrightarrow> preserves I (with_page f)"
  by (auto simp: preserves_def with_page_def split: option.splits)

lemma preserves_withStyle:
  assumes "\<And>w. I w \<Longrightarrow> I (snd (pushStyle p w))" "\<And>w. I w \<Longrightarrow> I (snd (popStyle w))"
    "\<And>st. preserves I (fn st)"
  shows "preserves I (withStyle p fn)"
proof -
  have "preserves I (seq (fn st) (lift (\<lambda>w'. snd (popStyle w'))))" for st
    by (intro preserves_seq preserves_lift assms)
  then show ?thesis
    using assms(1) by (auto simp: withStyle_def preserves_def split: prod.splits) (metis snd_conv)
qed

lemma stable_withStyle:
  "stable L I \<Longrightarrow> (\<And>st. preserves I (fn st)) \<Longrightarrow> preserves I (withStyle p fn)"
  by (rule preserves_withStyle) (auto simp: stable_def)

lemma stable_text': "stable L I \<Longrightarrow> preserves I (text' L str sty options)"
  unfolding text'_def
  by (auto simp: stable_def split: option.splits intro!: preserves_lift preserves_withStyle)

lemma stable_lineBreak: "stable L I \<Longrightarrow> preserves I (lineBreak L n)"
  unfolding lineBreak_def by (auto simp: stable_def intro!: preserves_lift)

lemma stable_moveUp: "stable L I \<Longrightarrow> preserves I (lift (doc_moveUp L))"
  by (auto simp: stable_def intro!: preserves_lift)

lemma stable_draw: "stable L I \<Longrightarrow> preserves I (lift (doc_draw os))"
  by (auto simp: stable_def intro!: preserves_lift)

lemma stable_set_x: "stable L I \<Longrightarrow> preserves I (lift (doc_set_x v))"
  by (auto simp: stable_def intro!: preserves_lift)

lemma stable_indentStart: "stable L I \<Longrightarrow> preserves I indentStart"
  unfolding indentStart_def
  by (auto simp: stable_def intro!: preserves_reading preserves_lift)

lemma stable_indentEnd: "stable L I \<Longrightarrow> preserves I indentEnd"
  unfolding indentEnd_def
  by (auto simp: stable_def intro!: preserves_lift)

lemma stable_enumValue: "stable L I \<Longrightarrow> preserves I (enumValue L len a b iv)"
  by (cases iv) (simp add: enumValue_def Let_def stable_text')

lemmas stable_intros =
  preserves_seq preserves_ret preserves_when_do preserves_reading preserves_Nil preserves_Cons
  preserves_forEach preserves_case_option stable_withStyle stable_text' stable_lineBreak
  stable_moveUp stable_draw stable_set_x stable_indentStart stable_indentEnd stable_enumValue

lemma stable_subHeader: "stable L I \<Longrightarrow> preserves I (subHeader L str)"
  unfolding subHeader_def by (intro stable_intros; assumption)

lemma stable_para: "stable L I \<Longrightarrow> preserves I (para L str)"
  unfolding para_def by (intro stable_intros; assumption)

lemma stable_description: "stable L I \<Longrightarrow> preserves I (description L str options)"
  unfolding description_def by (intro stable_intros; assumption)

lemma stable_dataField: "stable L I \<Longrightarrow> preserves I (dataField L origX field)"
  unfolding dataField_def Let_def by (intro stable_intros; assumption)

lemma stable_dataFields: "stable L I \<Longrightarrow> preserves I (dataFields L fs)"
  unfolding dataFields_def Let_def by (intro stable_intros stable_dataField; assumption)

lemma stable_schemaType: "stable L I \<Longrightarrow> preserves I (schemaType L typeName contentType)"
  unfolding schemaType_def by (intro stable_intros; assumption)

lemma stable_objectSchema: "stable L I \<Longrightarrow> preserves I (objectSchema L fs)"
  unfolding objectSchema_def by (intro stable_intros stable_dataFields; assumption)

lemma stable_example: "stable L I \<Longrightarrow> preserves I (example L name body)"
  unfolding example_def by (intro stable_intros; assumption)

lemma stable_enumValues: "stable L I \<Longrightarrow> preserves I (enumValues L vals)"
  unfolding enumValues_def Let_def by (intro stable_intros; assumption)

subsection \<open>Pages added by a text\<close>

lemma addPage_pow:
  "(doc_addPage L ^^ k) w =
     (if k = 0 then w
      else w\<lparr> pageNumber := pageNumber w + k,
              pageHeaderNodes := pageHeaderNodes w @ replicate k (currentSectionName w),
              doc := (doc w)
                \<lparr> pages := pages (doc w) @
                     replicate k \<lparr> page_margins = doc_margins (doc w), page_height = paper_height L \<rparr>,
                  page_ix := length (pages (doc w)) + k - 1,
                  doc_x := m_left (doc_margins (doc w)),
                  doc_y := m_top (doc_margins (doc w)) \<rparr> \<rparr>)"
proof (induction k)
  case 0
  then show ?case by simp
next
  case (Suc k)
  then show ?case
    by (cases "k = 0")
       (simp_all add: doc_addPage_def pageAdded_def Let_def replicate_append_same)
qed


subsection \<open>The outline\<close>

lemma seq_ret: "seq f ret = f"
  by (rule ext) (auto simp: seq_def ret_def split: prod.splits option.splits)


lemma addOutline_throws:
  "int (length (docOutlines w)) < level \<or> level < 0 \<Longrightarrow>
   addOutline level str w = (Some (HeaderNestingError level (int (length (docOutlines w)) - 1)), w)"
  by (auto simp: addOutline_def Let_def)

lemma addOutline_ok:
  assumes "0 \<le> level" "level \<le> int (length (docOutlines w))"
  shows "addOutline level str w =
    (None, w\<lparr> docOutlines := take (nat level) (docOutlines w) @ [length (outline_items (doc w))],
              doc := (doc w)\<lparr> outline_items := outline_items (doc w) @
                [(if level = 0 then None else Some (docOutlines w ! nat (level - 1)), str)] \<rparr> \<rparr>)"
proof (cases "level = int (length (docOutlines w))")
  case True
  then show ?thesis using assms
    by (auto simp: addOutline_def Let_def addItem_def)
next
  case False
  then have lt: "nat level < length (docOutlines w)" using assms by linarith
  have "take (nat level + 1) ((docOutlines w)[nat level := n]) = take (nat level) (docOutlines w) @ [n]" for n
    using lt by (simp add: take_Suc_conv_app_nth)
  then show ?thesis using assms False
    by (auto simp: addOutline_def Let_def addItem_def)
qed







subsection \<open>The style stack\<close>





lemma popStyle_eq:
  "popStyle w =
    (let prev = currentStyle (w\<lparr> styleStack := butlast (styleStack w) \<rparr>)
     in (prev, w\<lparr> styleStack := butlast (styleStack w),
                  doc := (doc w)\<lparr> doc_font := fonts ! (case font prev of None \<Rightarrow> 0 | Some f \<Rightarrow> EFont_index f),
                                  doc_fontSize := fontSize prev,
                                  doc_fillColor := fillColor prev,
                                  doc_x := leftMargin prev \<rparr> \<rparr>))"
  by (simp add: popStyle_def Let_def setStyle_def doc_set_x_def)





lemma styleStack_pop: "styleStack (snd (popStyle w)) = butlast (styleStack w)"
  by (simp add: popStyle_eq Let_def)

lemma baseStyle_pop: "baseStyle (snd (popStyle w)) = baseStyle w"
  by (simp add: popStyle_eq Let_def)












subsection \<open>Sequences of headings\<close>















subsection \<open>Data fields and enumerations\<close>

lemma block_snoc_lift:
  "(\<And>g. g \<in> set fs \<Longrightarrow> returns g) \<Longrightarrow>
   block (fs @ [lift f]) w = (None, f (snd (block fs w)))"
proof (induction fs arbitrary: w)
  case Nil
  then show ?case by (simp add: seq_ret lift_def ret_def)
next
  case (Cons a fs)
  then have a: "returns a" by simp
  show ?case using Cons by (simp add: seq_returns[OF a])
qed

lemma block4_last:
  "returns a \<Longrightarrow> returns b \<Longrightarrow> returns c \<Longrightarrow>
   block [a, b, c, lift f] w = (None, f (snd (block [a, b, c] w)))"
  using block_snoc_lift[of "[a, b, c]" f w] by auto

lemma dataField_last: "\<exists>v'. dataField L origX field v = (None, doc_set_x origX v')"
  unfolding dataField_def Let_def
  by (subst block4_last; (intro returns_intros)?) blast

lemma dataField_x:
  "fst (dataField L origX field v) = None \<and> doc_x (doc (snd (dataField L origX field v))) = origX"
  using dataField_last[of L origX field v] by (auto simp: doc_set_x_def)

lemma dataFields_eq: "dataFields L fs w = forEach (dataField L (doc_x (doc w))) fs w"
  by (simp add: dataFields_def reading_def Let_def)

text \<open>
  Claim C10. For every list of fields, \<open>dataFields\<close> returns with the cursor's \<open>x\<close> where
  it was when it was called: the value is read before the first field, and the handling
  of every field ends by putting it back, whatever the texts of the field (the inline
  description at an absolute \<open>x\<close> among them) did to the cursor.
\<close>

theorem dataFields_restores_cursor_x:
  "fst (dataFields L fs w) = None \<and>
   doc_x (doc (snd (dataFields L fs w))) = doc_x (doc w) \<and>
   (\<forall>field v. fst (dataField L (doc_x (doc w)) field v) = None \<and>
      doc_x (doc (snd (dataField L (doc_x (doc w)) field v))) = doc_x (doc w))"
proof -
  let ?I = "\<lambda>v. doc_x (doc v) = doc_x (doc w)"
  have "preserves ?I (forEach (dataField L (doc_x (doc w))) fs)"
    by (intro preserves_forEach) (simp add: preserves_def dataField_x)
  then have "doc_x (doc (snd (dataFields L fs w))) = doc_x (doc w)"
    unfolding dataFields_eq by (rule preservesD) simp
  then show ?thesis
    using returnsD[OF returns_dataFields, of L fs w] by (simp add: dataField_x)
qed





lemma summary_text_call:
  "summary (TextOp (text_call d str pos options lg)) =
     Some (str, continued options, opt_x options, indent options)"
  by (simp add: text_call_def)














subsection \<open>Construction with a style configuration\<close>

lemma overlay_complete: "complete s \<Longrightarrow> overlay d s = s"
  by (auto simp: complete_def overlay_def nullish_def)

lemma style_new:
  "style (PdfWriter_new outputFilePath external) =
     (case external of None \<Rightarrow> default_style | Some st \<Rightarrow> st)"
  by (simp add: PdfWriter_new_def Let_def)

lemma margins_new:
  "doc_margins (doc (PdfWriter_new outputFilePath external)) =
     \<lparr> m_left = horizontalMargin (format (style (PdfWriter_new outputFilePath external))),
       m_right = horizontalMargin (format (style (PdfWriter_new outputFilePath external))),
       m_top = verticalMargin (format (style (PdfWriter_new outputFilePath external))),
       m_bottom = verticalMargin (format (style (PdfWriter_new outputFilePath external))) \<rparr>"
  by (simp add: PdfWriter_new_def PDFDocument_new_def Let_def)

text \<open>
  Claim C4, as amended. A style configuration supplied at construction replaces the
  default style as a whole: the writer's style, which the methods read their colours,
  base font size and indent step from, is the supplied object itself, so an option it has
  is the one in effect and an option it lacks is lacking (it is not filled in from the
  defaults); with no object supplied the style is the documented defaults. The margins
  handed to the document are the horizontal and vertical margins of that style. For a
  complete configuration the style is therefore the defaults overlaid with the supplied
  options.
\<close>

theorem external_style_replaces_defaults:
  "style (PdfWriter_new outputFilePath (Some supplied)) = supplied \<and>
   style (PdfWriter_new outputFilePath None) = default_style \<and>
   doc_margins (doc (PdfWriter_new outputFilePath external)) =
     \<lparr> m_left = horizontalMargin (format (style (PdfWriter_new outputFilePath external))),
       m_right = horizontalMargin (format (style (PdfWriter_new outputFilePath external))),
       m_top = verticalMargin (format (style (PdfWriter_new outputFilePath external))),
       m_bottom = verticalMargin (format (style (PdfWriter_new outputFilePath external))) \<rparr> \<and>
   (complete supplied \<longrightarrow>
      style (PdfWriter_new outputFilePath (Some supplied)) = overlay default_style supplied)"
  using margins_new[of outputFilePath external]
  by (simp add: style_new overlay_complete)

theorem external_style_replaces_defaults_witness:
  "complete larger_style \<and>
   style (PdfWriter_new None (Some larger_style)) = larger_style \<and>
   style (PdfWriter_new None (Some larger_style)) = overlay default_style larger_style \<and>
   m_left (doc_margins (doc (PdfWriter_new None (Some larger_style)))) = Some (Num 100) \<and>
   m_top (doc_margins (doc (PdfWriter_new None (Some larger_style)))) = Some (Num 60)"
proof -
  have c: "complete larger_style"
    by (simp add: complete_def larger_style_def default_style_def)
  have m: "horizontalMargin (format larger_style) = Some (Num 100)"
    "verticalMargin (format larger_style) = Some (Num 60)"
    by (simp_all add: larger_style_def)
  note T = external_style_replaces_defaults[of None larger_style "Some larger_style"]
  have s1: "style (PdfWriter_new None (Some larger_style)) = larger_style"
    by (rule T[THEN conjunct1])
  have s2: "style (PdfWriter_new None (Some larger_style)) = overlay default_style larger_style"
    by (rule T[THEN conjunct2, THEN conjunct2, THEN conjunct2, THEN mp, OF c])
  have mg: "m_left (doc_margins (doc (PdfWriter_new None (Some larger_style)))) = Some (Num 100)"
    "m_top (doc_margins (doc (PdfWriter_new None (Some larger_style)))) = Some (Num 60)"
    unfolding T[THEN conjunct2, THEN conjunct2, THEN conjunct1] s1 by (simp_all add: m)
  show ?thesis
    by (intro conjI c s1 s2 mg)
qed

text \<open>
  An option absent from the supplied configuration does not keep its default: with the
  base font size left out, the writer's style has none, where the overlay has 10.
\<close>

theorem absent_option_has_no_default_counterexample:
  "baseSize (font_group (style (PdfWriter_new None (Some without_base_size)))) = None \<and>
   baseSize (font_group (overlay default_style without_base_size)) = Some (Num 10) \<and>
   style (PdfWriter_new None (Some without_base_size)) \<noteq> overlay default_style without_base_size"
proof -
  have a: "baseSize (font_group (style (PdfWriter_new None (Some without_base_size)))) = None"
    by (simp add: style_new without_base_size_def)
  have b: "baseSize (font_group (overlay default_style without_base_size)) = Some (Num 10)"
    by (simp add: overlay_def without_base_size_def nullish_def default_style_def)
  from a b show ?thesis by auto
qed

subsection \<open>The page registry\<close>

lemma stable_docD: "stable_doc L I \<Longrightarrow> stable L I"
  by (simp add: stable_doc_def)

lemma doc_addPage_registry:
  "pageNumber (doc_addPage L v) = pageNumber v + 1 \<and>
   pageHeaderNodes (doc_addPage L v) = pageHeaderNodes v @ [currentSectionName v] \<and>
   length (pages (doc (doc_addPage L v))) = length (pages (doc v)) + 1"
  by (simp add: doc_addPage_def pageAdded_def Let_def)

lemma stable_doc_reg_inv: "stable_doc L reg_inv"
  unfolding stable_doc_def stable_def
  by (simp add: reg_inv_def pushStyle_def popStyle_def setStyle_def doc_set_x_def doc_set_y_def
      textImpl_def doc_text_def addPage_pow doc_moveDown_def doc_moveUp_def doc_draw_def
      doc_addPage_def pageAdded_def resetStyle_def doc_end_def Let_def)

lemma nth0_append: "xs \<noteq> [] \<Longrightarrow> (xs @ ys) ! 0 = xs ! 0"
  by (cases xs) auto

lemma stable_doc_titled_inv: "stable_doc L titled_inv"
  unfolding stable_doc_def stable_def
  by (simp add: titled_inv_def reg_inv_def pushStyle_def popStyle_def setStyle_def doc_set_x_def
      doc_set_y_def textImpl_def doc_text_def addPage_pow doc_moveDown_def doc_moveUp_def
      doc_draw_def doc_addPage_def pageAdded_def resetStyle_def doc_end_def Let_def nth0_append)

lemma stable_doc_addOutline:
  assumes "stable_doc L I"
  shows "preserves I (addOutline level str)"
proof -
  have "I (snd (addOutline level str w))" if "I w" for w
  proof (cases "0 \<le> level \<and> level \<le> int (length (docOutlines w))")
    case True
    then show ?thesis
      using assms that by (simp add: addOutline_ok stable_doc_def)
  next
    case False
    then have "int (length (docOutlines w)) < level \<or> level < 0" by linarith
    then show ?thesis
      using that by (simp add: addOutline_throws)
  qed
  then show ?thesis by (simp add: preserves_def)
qed

lemma stable_doc_header: "stable_doc L I \<Longrightarrow> preserves I (header L level str anchor)"
  unfolding header_def
  by (intro stable_intros stable_doc_addOutline stable_docD; assumption)

lemma stable_doc_apiHeader: "stable_doc L I \<Longrightarrow> preserves I (apiHeader L meth endpoint level)"
  unfolding apiHeader_def Let_def
  by (intro stable_intros stable_doc_addOutline stable_docD; assumption)

lemma stable_doc_addPage: "stable_doc L I \<Longrightarrow> preserves I (lift (doc_addPage L))"
  by (auto simp: stable_doc_def intro!: preserves_lift)

lemma stable_doc_set_y: "stable_doc L I \<Longrightarrow> preserves I (lift (doc_set_y v))"
  by (auto simp: stable_doc_def intro!: preserves_lift)

lemma stable_doc_resetStyle: "stable_doc L I \<Longrightarrow> preserves I (lift resetStyle)"
  by (auto simp: stable_doc_def intro!: preserves_lift)

lemma stable_doc_section: "stable_doc L I \<Longrightarrow> preserves I (lift (\<lambda>w. w\<lparr> currentSectionName := n \<rparr>))"
  by (auto simp: stable_doc_def intro!: preserves_lift)

lemma stable_doc_end: "stable_doc L I \<Longrightarrow> preserves I (lift doc_end)"
  by (auto simp: stable_doc_def intro!: preserves_lift)

lemma stable_doc_switchToPage: "stable_doc L I \<Longrightarrow> preserves I (doc_switchToPage i)"
  by (auto simp: stable_doc_def preserves_def doc_switchToPage_def)

lemma stable_doc_set_page_margins: "stable_doc L I \<Longrightarrow> preserves I (set_page_margins t b)"
  unfolding set_page_margins_def
  by (intro preserves_with_page preserves_lift) (simp add: stable_doc_def)

lemma title_block:
  "stable_doc L I \<Longrightarrow> preserves I (block
       [with_page (\<lambda>p. lift (doc_set_y (Some (js_mul (page_height p) (Num (3 / 10)))))),
        text' L title
          (Some (no_patch\<lparr> p_font := Some (Some BOLD), p_fontSize := Some (Some (Num 20)) \<rparr>))
          (no_options\<lparr> align := Some ''center'' \<rparr>),
        lineBreak L (Some (Num 1)),
        (case subtitle of
           None \<Rightarrow> ret
         | Some sub \<Rightarrow>
             when_do (sub \<noteq> [])
               (block
                  [text' L sub
                     (Some (no_patch\<lparr> p_font := Some (Some NORM), p_fontSize := Some (Some (Num 14)) \<rparr>))
                     (no_options\<lparr> align := Some ''center'' \<rparr>),
                   lineBreak L (Some (Num (1 / 2)))])),
        (case date of
           None \<Rightarrow> ret
         | Some dt \<Rightarrow>
             when_do (dt \<noteq> [])
               (reading (\<lambda>w. text' L dt
                  (Some (no_patch\<lparr> p_font := Some (Some NORM), p_fontSize := Some (Some (Num 12)),
                                    p_fillColor := Some (secondary (color (style w))) \<rparr>))
                  (no_options\<lparr> align := Some ''center'' \<rparr>))))])"
  by (intro stable_intros preserves_with_page stable_doc_set_y stable_docD; assumption)

lemma stable_doc_addTitlePage: "stable_doc L I \<Longrightarrow> preserves I (addTitlePage L title subtitle date)"
  unfolding addTitlePage_def
  by (intro preserves_Cons stable_doc_addPage title_block; assumption)

lemma addTitlePage_first:
  assumes "stable_doc L I" "I (doc_addPage L w)"
  shows "I (snd (addTitlePage L title subtitle date w))"
proof -
  have "addTitlePage L title subtitle date w =
        block
       [with_page (\<lambda>p. lift (doc_set_y (Some (js_mul (page_height p) (Num (3 / 10)))))),
        text' L title
          (Some (no_patch\<lparr> p_font := Some (Some BOLD), p_fontSize := Some (Some (Num 20)) \<rparr>))
          (no_options\<lparr> align := Some ''center'' \<rparr>),
        lineBreak L (Some (Num 1)),
        (case subtitle of
           None \<Rightarrow> ret
         | Some sub \<Rightarrow>
             when_do (sub \<noteq> [])
               (block
                  [text' L sub
                     (Some (no_patch\<lparr> p_font := Some (Some NORM), p_fontSize := Some (Some (Num 14)) \<rparr>))
                     (no_options\<lparr> align := Some ''center'' \<rparr>),
                   lineBreak L (Some (Num (1 / 2)))])),
        (case date of
           None \<Rightarrow> ret
         | Some dt \<Rightarrow>
             when_do (dt \<noteq> [])
               (reading (\<lambda>w. text' L dt
                  (Some (no_patch\<lparr> p_font := Some (Some NORM), p_fontSize := Some (Some (Num 12)),
                                    p_fillColor := Some (secondary (color (style w))) \<rparr>))
                  (no_options\<lparr> align := Some ''center'' \<rparr>))))] (doc_addPage L w)"
    unfolding addTitlePage_def block.simps(2)[of "lift (doc_addPage L)"]
    by (simp add: seq_def lift_def)
  then show ?thesis
    using preservesD[OF title_block[OF assms(1)] assms(2)] by simp
qed

lemma stable_doc_newSection: "stable_doc L I \<Longrightarrow> preserves I (newSection L name)"
  unfolding newSection_def
  by (intro stable_intros stable_doc_addPage stable_doc_resetStyle stable_doc_section; assumption)

lemma stable_doc_stampPage: "stable_doc L I \<Longrightarrow> preserves I (stampPage L count i t b)"
  unfolding stampPage_def
  by (intro stable_intros preserves_with_page stable_docD; assumption)

lemma stable_doc_finishPage: "stable_doc L I \<Longrightarrow> preserves I (finishPage L count i)"
  unfolding finishPage_def Let_def
  by (intro stable_intros preserves_with_page stable_doc_switchToPage
        stable_doc_set_page_margins stable_doc_stampPage stable_docD; assumption)

lemma stable_doc_finish: "stable_doc L I \<Longrightarrow> preserves I (finish L)"
  unfolding finish_def Let_def
  by (intro stable_intros stable_doc_finishPage stable_doc_end; assumption)

lemma stable_doc_exec:
  assumes "stable_doc L I"
  shows "preserves I (exec L c)"
proof -
  note s = stable_docD[OF assms]
  show ?thesis
    by (cases c)
       (simp_all add: stable_doc_addTitlePage stable_doc_newSection stable_indentStart[OF s]
          stable_indentEnd[OF s] stable_lineBreak stable_text' stable_doc_header stable_doc_apiHeader
          stable_subHeader stable_para stable_description stable_dataFields stable_schemaType
          stable_objectSchema stable_example stable_enumValues stable_doc_finish assms s)
qed

lemma stable_doc_run: "stable_doc L I \<Longrightarrow> I w \<Longrightarrow> I (run L cs w)"
proof (induction cs arbitrary: w)
  case Nil
  then show ?case by simp
next
  case (Cons c cs)
  then show ?case
    using preservesD[OF stable_doc_exec[OF Cons.prems(1)], of w c] by simp
qed

lemma fresh_reg_inv: "reg_inv (PdfWriter_new outputFilePath external)"
  by (simp add: reg_inv_def PdfWriter_new_def PDFDocument_new_def Let_def)

lemma fresh_titled: "titled_inv (doc_addPage L (PdfWriter_new outputFilePath external))"
  by (simp add: titled_inv_def reg_inv_def doc_addPage_def pageAdded_def PdfWriter_new_def
      PDFDocument_new_def Let_def)

text \<open>
  Claim C8. Whatever the calls made on a new writer, and whether they return or throw,
  after each of them the list of page headers is as long as the page counter says, which
  is the number of pages of the document. When the first call is \<open>addTitlePage\<close>, the list
  is never empty afterwards and its first entry, the title page's, is the empty string.
  Every page added, by \<open>addPage\<close> or by a text that breaks onto a new page, increments the
  counter and appends the section name current at that moment, once.
\<close>

theorem page_registry_invariant:
  "reg_inv (run L cs (PdfWriter_new outputFilePath external)) \<and>
   reg_inv (run L (AddTitlePage title subtitle date # cs) (PdfWriter_new outputFilePath external)) \<and>
   pageHeaderNodes (run L (AddTitlePage title subtitle date # cs)
      (PdfWriter_new outputFilePath external)) \<noteq> [] \<and>
   pageHeaderNodes (run L (AddTitlePage title subtitle date # cs)
      (PdfWriter_new outputFilePath external)) ! 0 = [] \<and>
   pageNumber (doc_addPage L v) = pageNumber v + 1 \<and>
   pageHeaderNodes (doc_addPage L v) = pageHeaderNodes v @ [currentSectionName v] \<and>
   length (pages (doc (doc_addPage L v))) = length (pages (doc v)) + 1"
proof -
  let ?w = "PdfWriter_new outputFilePath external"
  have 1: "reg_inv (run L cs ?w)"
    by (rule stable_doc_run[OF stable_doc_reg_inv fresh_reg_inv])
  have "titled_inv (snd (addTitlePage L title subtitle date ?w))"
    by (rule addTitlePage_first[OF stable_doc_titled_inv fresh_titled])
  then have "titled_inv (run L (AddTitlePage title subtitle date # cs) ?w)"
    using stable_doc_run[OF stable_doc_titled_inv, where cs = cs and L = L] by simp
  then show ?thesis
    using 1 doc_addPage_registry[of L v] by (simp add: titled_inv_def)
qed

subsection \<open>The last pass over the pages\<close>



















end
